theory Spec2Isabelle
  imports Complex_Main
begin

section \<open>JavaScript values used by the dashboard\<close>

text \<open>
  A JavaScript \<open>number\<close> is modelled as an exact rational extended with \<open>NaN\<close> and the two
  infinities. The rounding and the overflow of IEEE doubles and the sign of zero are not
  modelled: \<open>Fin 0\<close> stands for both \<open>+0\<close> and \<open>-0\<close>.
\<close>

datatype js_number = NaN | NegInf | Fin rat | PosInf

text \<open>Truthiness of a number: \<open>NaN\<close> and \<open>0\<close> are falsy, everything else is truthy.\<close>

fun js_truthy :: "js_number \<Rightarrow> bool" where
  "js_truthy NaN = False"
| "js_truthy (Fin r) = (r \<noteq> 0)"
| "js_truthy NegInf = True"
| "js_truthy PosInf = True"

text \<open>The operator \<open>a || b\<close> on numbers.\<close>

definition js_or :: "js_number \<Rightarrow> js_number \<Rightarrow> js_number" where
  "js_or a b = (if js_truthy a then a else b)"

text \<open>\<open>Math.max(a, b)\<close> and \<open>Math.min(a, b)\<close>: \<open>NaN\<close> if either argument is \<open>NaN\<close>.\<close>

fun Math_max :: "js_number \<Rightarrow> js_number \<Rightarrow> js_number" where
  "Math_max NaN _ = NaN"
| "Math_max _ NaN = NaN"
| "Math_max PosInf _ = PosInf"
| "Math_max _ PosInf = PosInf"
| "Math_max NegInf b = b"
| "Math_max a NegInf = a"
| "Math_max (Fin a) (Fin b) = Fin (max a b)"

fun Math_min :: "js_number \<Rightarrow> js_number \<Rightarrow> js_number" where
  "Math_min NaN _ = NaN"
| "Math_min _ NaN = NaN"
| "Math_min NegInf _ = NegInf"
| "Math_min _ NegInf = NegInf"
| "Math_min PosInf b = b"
| "Math_min a PosInf = a"
| "Math_min (Fin a) (Fin b) = Fin (min a b)"

text \<open>Strict equality \<open>a === b\<close> and the comparison \<open>a > b\<close> on numbers.\<close>

definition js_strict_eq :: "js_number \<Rightarrow> js_number \<Rightarrow> bool" where
  "js_strict_eq a b = (a \<noteq> NaN \<and> a = b)"

fun js_gt :: "js_number \<Rightarrow> js_number \<Rightarrow> bool" where
  "js_gt NaN _ = False"
| "js_gt _ NaN = False"
| "js_gt PosInf b = (b \<noteq> PosInf)"
| "js_gt NegInf _ = False"
| "js_gt (Fin a) PosInf = False"
| "js_gt (Fin a) NegInf = True"
| "js_gt (Fin a) (Fin b) = (a > b)"

text \<open>
  Division \<open>a / b\<close> never raises in JavaScript: dividing by zero yields an infinity, or
  \<open>NaN\<close> for \<open>0 / 0\<close>.
\<close>

fun js_div :: "js_number \<Rightarrow> js_number \<Rightarrow> js_number" where
  "js_div NaN _ = NaN"
| "js_div _ NaN = NaN"
| "js_div (Fin a) (Fin b) =
     (if b \<noteq> 0 then Fin (a / b)
      else if a = 0 then NaN
      else if a > 0 then PosInf else NegInf)"
| "js_div (Fin a) _ = Fin 0"
| "js_div PosInf (Fin b) = (if b < 0 then NegInf else PosInf)"
| "js_div NegInf (Fin b) = (if b < 0 then PosInf else NegInf)"
| "js_div _ _ = NaN"

fun js_mul :: "js_number \<Rightarrow> js_number \<Rightarrow> js_number" where
  "js_mul NaN _ = NaN"
| "js_mul _ NaN = NaN"
| "js_mul (Fin a) (Fin b) = Fin (a * b)"
| "js_mul (Fin a) PosInf = (if a = 0 then NaN else if a > 0 then PosInf else NegInf)"
| "js_mul (Fin a) NegInf = (if a = 0 then NaN else if a > 0 then NegInf else PosInf)"
| "js_mul PosInf (Fin b) = (if b = 0 then NaN else if b > 0 then PosInf else NegInf)"
| "js_mul NegInf (Fin b) = (if b = 0 then NaN else if b > 0 then NegInf else PosInf)"
| "js_mul PosInf PosInf = PosInf"
| "js_mul NegInf NegInf = PosInf"
| "js_mul _ _ = NegInf"

text \<open>\<open>Math.round(x)\<close> rounds to the nearest integer, halves towards \<open>+\<infinity>\<close>.\<close>

fun Math_round :: "js_number \<Rightarrow> js_number" where
  "Math_round (Fin r) = Fin (of_int \<lfloor>r + 1 / 2\<rfloor>)"
| "Math_round x = x"

text \<open>\<open>Math.max(...xs)\<close> over an array of numbers: \<open>-Infinity\<close> for the empty array.\<close>

definition Math_max_list :: "js_number list \<Rightarrow> js_number" where
  "Math_max_list xs = foldr Math_max xs NegInf"

text \<open>
  A value that may be \<open>undefined\<close> or \<open>null\<close>, with the nullish coalescing operator
  \<open>x ?? d\<close>.
\<close>

datatype 'a js_opt = Undefined | Null | Val 'a

fun nullish :: "'a js_opt \<Rightarrow> 'a \<Rightarrow> 'a" where
  "nullish (Val v) d = v"
| "nullish _ d = d"

text \<open>\<open>x ?? undefined\<close> and \<open>x ?? null\<close> keep a value and normalise its absence.\<close>

fun nullish_undefined :: "'a js_opt \<Rightarrow> 'a js_opt" where
  "nullish_undefined (Val v) = Val v"
| "nullish_undefined _ = Undefined"

fun nullish_null :: "'a js_opt \<Rightarrow> 'a js_opt" where
  "nullish_null (Val v) = Val v"
| "nullish_null _ = Null"

text \<open>
  \<open>ToIntegerOrInfinity\<close> on a finite number truncates towards zero. \<open>xs.slice(0, end)\<close>
  keeps the elements before the final index: a negative \<open>end\<close> counts from the end of
  the array, \<open>NaN\<close> is \<open>0\<close>.
\<close>

definition js_trunc :: "rat \<Rightarrow> int" where
  "js_trunc r = (if r \<ge> 0 then \<lfloor>r\<rfloor> else \<lceil>r\<rceil>)"

fun slice_final :: "nat \<Rightarrow> js_number \<Rightarrow> nat" where
  "slice_final len NaN = 0"
| "slice_final len NegInf = 0"
| "slice_final len PosInf = len"
| "slice_final len (Fin r) =
     (let k = js_trunc r
      in if k < 0 then nat (max (int len + k) 0) else nat (min k (int len)))"

definition Array_slice0 :: "'a list \<Rightarrow> js_number \<Rightarrow> 'a list" where
  "Array_slice0 xs e = take (slice_final (length xs) e) xs"

section \<open>AlgorithmSelector: the change handlers\<close>

text \<open>
  \<^verbatim>\<open>const handleDigitsChange = (event) => {
    const value = Number(event.target.value) || 2;
    onDigitsChange(Math.min(Math.max(value, 1), 5));
  };\<close>
  The argument is \<open>Number(event.target.value)\<close>, the number the text of the control converts
  to (\<open>NaN\<close> for text that is not numeric, \<open>0\<close> for the empty text); the result is the value
  handed to \<open>onDigitsChange\<close>.
\<close>

definition handleDigitsChange :: "js_number \<Rightarrow> js_number" where
  "handleDigitsChange n =
     (let v = js_or n (Fin 2) in Math_min (Math_max v (Fin 1)) (Fin 5))"

text \<open>
  \<^verbatim>\<open>const handleTopKChange = (event) => { onTopKChange(Number(event.target.value) || 1); };\<close>
\<close>

definition handleTopKChange :: "js_number \<Rightarrow> js_number" where
  "handleTopKChange n = js_or n (Fin 1)"

section \<open>PredictionPanel: the display list and the prediction grid\<close>

text \<open>
  \<open>PredictionResult\<close> and \<open>PredictionScore\<close> of \<open>types.ts\<close>. Ranks are integers; the
  metrics dictionary is kept as a list of key and text pairs. A score's probability may reach
  the panel as \<open>null\<close>, which the code guards with \<open>?? 0\<close>.
\<close>

record PredictionResult =
  number :: string
  probability :: js_number
  rank :: int
  supporting_metrics :: "(string \<times> string) list js_opt"
  explanation :: "string js_opt"

record PredictionScore =
  score_number :: string
  score_probability :: "js_number js_opt"

text \<open>
  The fields of \<open>PredictionResponse\<close> that \<open>createDisplayResults\<close> reads. An array field is
  \<open>None\<close> when the response carries no array there (\<open>Array.isArray\<close> is false, the value
  is falsy).
\<close>

record PredictionResponse =
  recommended_heads :: "string list option"
  results :: "PredictionResult list option"
  scores :: "PredictionScore list option"
  response_notes :: "string js_opt"

text \<open>\<open>Array.isArray(xs) && xs.length > 0\<close>, and the elements of an array field.\<close>

fun nonempty_array :: "'a list option \<Rightarrow> bool" where
  "nonempty_array None = False"
| "nonempty_array (Some xs) = (length xs > 0)"

fun elements :: "'a list option \<Rightarrow> 'a list" where
  "elements None = []"
| "elements (Some xs) = xs"

text \<open>
  \<^verbatim>\<open>const uniform = data.recommended_heads.length ? 1 / data.recommended_heads.length : 0;\<close>
\<close>

definition uniform_probability :: "string list \<Rightarrow> js_number" where
  "uniform_probability heads =
     (if length heads \<noteq> 0 then js_div (Fin 1) (Fin (of_nat (length heads))) else Fin 0)"

text \<open>
  \<^verbatim>\<open>function createDisplayResults(data, fallbackNotes) {
    if (!data) return [];
    if (Array.isArray(data.results) && data.results.length > 0) {
      return data.results.map(item => ({ ...item, supporting_metrics: item.supporting_metrics ?? undefined }));
    }
    if (Array.isArray(data.scores) && data.scores.length > 0) {
      return data.scores.map((score, index) => ({
        number: score.number, probability: score.probability ?? 0, rank: index + 1,
        explanation: data.notes ?? fallbackNotes }));
    }
    if (!data.recommended_heads || data.recommended_heads.length === 0) { return []; }
    const uniform = ...;
    return data.recommended_heads.map((number, index) => ({
      number, rank: index + 1, probability: uniform, explanation: data.notes ?? fallbackNotes }));
  }\<close>
\<close>

definition createDisplayResults :: "PredictionResponse option \<Rightarrow> string \<Rightarrow> PredictionResult list" where
  "createDisplayResults data fallbackNotes =
     (case data of
        None \<Rightarrow> []
      | Some d \<Rightarrow>
          if nonempty_array (results d) then
            map (\<lambda>item. item\<lparr>supporting_metrics := nullish_undefined (supporting_metrics item)\<rparr>)
              (elements (results d))
          else if nonempty_array (scores d) then
            map (\<lambda>(index, score).
                  \<lparr>number = score_number score,
                   probability = nullish (score_probability score) (Fin 0),
                   rank = int index + 1,
                   supporting_metrics = Undefined,
                   explanation = Val (nullish (response_notes d) fallbackNotes)\<rparr>)
              (enumerate 0 (elements (scores d)))
          else if \<not> nonempty_array (recommended_heads d) then []
          else
            (let uniform = uniform_probability (elements (recommended_heads d))
             in map (\<lambda>(index, n).
                  \<lparr>number = n,
                   probability = uniform,
                   rank = int index + 1,
                   supporting_metrics = Undefined,
                   explanation = Val (nullish (response_notes d) fallbackNotes)\<rparr>)
              (enumerate 0 (elements (recommended_heads d)))))"

text \<open>
  The children of the \<open>prediction-grid\<close> element below its header: the notice
  \<open>prediction-grid__empty\<close> when there is nothing to show, otherwise one
  \<open>prediction-grid__row\<close> for each element of \<open>results.slice(0, topK)\<close>.
\<close>

datatype grid_child = Grid_empty | Grid_row PredictionResult

definition prediction_grid :: "PredictionResponse option \<Rightarrow> string \<Rightarrow> js_number \<Rightarrow> grid_child list" where
  "prediction_grid data blurb topK =
     (let results = createDisplayResults data blurb
      in if length results = 0 then [Grid_empty]
         else map Grid_row (Array_slice0 results topK))"

fun is_row :: "grid_child \<Rightarrow> bool" where
  "is_row Grid_empty = False"
| "is_row (Grid_row _) = True"

definition prediction_rows :: "PredictionResponse option \<Rightarrow> string \<Rightarrow> js_number \<Rightarrow> grid_child list" where
  "prediction_rows data blurb topK = filter is_row (prediction_grid data blurb topK)"

section \<open>TailHeatmap and NumberFrequencyList\<close>

record TailFrequency =
  tail :: string
  tail_count :: rat

record NumberFrequency =
  freq_number :: string
  freq_count :: rat

text \<open>
  \<^verbatim>\<open>function getIntensity(value, max) { if (max === 0) return 0; return value / max; }\<close>
\<close>

definition getIntensity :: "js_number \<Rightarrow> js_number \<Rightarrow> js_number" where
  "getIntensity v m = (if js_strict_eq m (Fin 0) then Fin 0 else js_div v m)"

text \<open>
  \<open>TailHeatmap\<close> shows a notice for an empty list (\<open>None\<close>); otherwise it computes
  \<open>max = Math.max(...data.map(item => item.count))\<close> and one intensity for each cell.
\<close>

definition TailHeatmap :: "TailFrequency list \<Rightarrow> (string \<times> js_number) list option" where
  "TailHeatmap data =
     (if length data = 0 then None
      else
        (let m = Math_max_list (map (\<lambda>item. Fin (tail_count item)) data)
         in Some (map (\<lambda>item. (tail item, getIntensity (Fin (tail_count item)) m)) data)))"

text \<open>
  \<^verbatim>\<open>const percent = max > 0 ? Math.round((item.count / max) * 100) : 0;\<close>
\<close>

definition percent :: "js_number \<Rightarrow> js_number \<Rightarrow> js_number" where
  "percent c m =
     (if js_gt m (Fin 0) then Math_round (js_mul (js_div c m) (Fin 100)) else Fin 0)"

definition NumberFrequencyList :: "NumberFrequency list \<Rightarrow> (string \<times> js_number) list option" where
  "NumberFrequencyList data =
     (if length data = 0 then None
      else
        (let m = Math_max_list (map (\<lambda>item. Fin (freq_count item)) data)
         in Some (map (\<lambda>item. (freq_number item, percent (Fin (freq_count item)) m)) data)))"

section \<open>The useAsync hook\<close>

text \<open>
  \<open>AsyncState<T>\<close>: \<open>None\<close> is \<open>null\<close>. The value a promise settles with may itself be
  \<open>null\<close> (the cast \<open>error as Error\<close> checks nothing), so settlements carry options.
\<close>

record ('a, 'e) AsyncState =
  data :: "'a option"
  error :: "'e option"
  loading :: bool

record 'a UseAsyncOptions =
  initialData :: "'a js_opt"
  immediate :: "bool option"

text \<open>
  \<^verbatim>\<open>const { initialData = null, immediate = true } = options;
  useState({ data: initialData ?? null, error: null, loading: immediate });\<close>
\<close>

definition useAsync_initial :: "'a UseAsyncOptions \<Rightarrow> ('a, 'e) AsyncState" where
  "useAsync_initial opts =
     \<lparr>data = (case initialData opts of Val v \<Rightarrow> Some v | _ \<Rightarrow> None),
      error = None,
      loading = (case immediate opts of None \<Rightarrow> True | Some b \<Rightarrow> b)\<rparr>"

text \<open>
  The three state updates of \<open>execute\<close>: the update on entry, the one after the factory's
  promise resolves and the one in the \<open>catch\<close> block. Calls of \<open>execute\<close> (from the
  effect and from \<open>reload\<close>) may overlap, so their updates can interleave in any order.
\<close>

datatype ('a, 'e) async_event = Execute | Resolved "'a option" | Rejected "'e option"

fun async_step :: "('a, 'e) AsyncState \<Rightarrow> ('a, 'e) async_event \<Rightarrow> ('a, 'e) AsyncState" where
  "async_step prev Execute = prev\<lparr>loading := True, error := None\<rparr>"
| "async_step prev (Resolved r) = \<lparr>data = r, error = None, loading = False\<rparr>"
| "async_step prev (Rejected e) = \<lparr>data = None, error = e, loading = False\<rparr>"

definition useAsync :: "'a UseAsyncOptions \<Rightarrow> ('a, 'e) async_event list \<Rightarrow> ('a, 'e) AsyncState" where
  "useAsync opts events = foldl async_step (useAsync_initial opts) events"

section \<open>The API client: runLottoBacktest\<close>

text \<open>Values of type \<open>unknown\<close> in a strategy's options are JSON values.\<close>

datatype json =
    JNull
  | JBool bool
  | JNum js_number
  | JStr string
  | JArr "json list"
  | JObj "(string \<times> json) list"

text \<open>
  \<open>LottoBacktestRequestBody\<close>. A field declared \<open>f?: T\<close> is an option (\<open>None\<close> is
  \<open>undefined\<close>); a field declared \<open>f?: T | null\<close> can also be \<open>null\<close>.
\<close>

record LottoStrategy =
  strategy_type :: string
  options :: "(string \<times> json) list option"
  plugin_id :: "string js_opt"

record LottoRiskLimits =
  max_daily_stake_ratio :: "js_number option"
  max_single_stake_ratio :: "js_number option"

record LottoPayoutRules =
  jackpot_multiplier :: "js_number option"
  loss_multiplier :: "js_number option"

record LottoBacktestRequestBody =
  capital :: js_number
  date_start :: string
  date_end :: string
  region :: "string js_opt"
  model :: string
  top_k :: js_number
  digits :: js_number
  strategy :: LottoStrategy
  risk_limits :: "LottoRiskLimits option"
  payout_rules :: "LottoPayoutRules option"
  lookback_draws :: "js_number js_opt"
  seed :: "js_number js_opt"

text \<open>
  \<^verbatim>\<open>const payload = {
    ...body,
    strategy: {
      type: body.strategy.type,
      options: body.strategy.options ?? {},
      plugin_id: body.strategy.plugin_id ?? null,
    },
    risk_limits: body.risk_limits ?? undefined,
    payout_rules: body.payout_rules ?? undefined,
  };\<close>
  The payload is what \<open>runLottoBacktest\<close> serialises and posts to \<open>/backtest/lotto/run\<close>.
\<close>

definition runLottoBacktest_payload :: "LottoBacktestRequestBody \<Rightarrow> LottoBacktestRequestBody" where
  "runLottoBacktest_payload body =
     body\<lparr>strategy :=
            \<lparr>strategy_type = strategy_type (strategy body),
             options = Some (case options (strategy body) of None \<Rightarrow> [] | Some opts \<Rightarrow> opts),
             plugin_id = nullish_null (plugin_id (strategy body))\<rparr>,
          risk_limits := (case risk_limits body of None \<Rightarrow> None | Some r \<Rightarrow> Some r),
          payout_rules := (case payout_rules body of None \<Rightarrow> None | Some r \<Rightarrow> Some r)\<rparr>"

section \<open>The response types of the Backtest Pro run\<close>

text \<open>
  An interface declaration of \<open>types.ts\<close> as the list of its fields in declaration order.
  \<open>optional\<close> is the \<open>?\<close> mark; the type is kept as written.
\<close>

record ts_field =
  field_name :: string
  optional :: bool
  field_type :: string

definition fld :: "string \<Rightarrow> bool \<Rightarrow> string \<Rightarrow> ts_field" where
  "fld n opt t = \<lparr>field_name = n, optional = opt, field_type = t\<rparr>"

definition LottoBacktestSummary_fields :: "ts_field list" where
  "LottoBacktestSummary_fields =
     [fld ''final_balance'' False ''number'',
      fld ''total_bets'' False ''number'',
      fld ''total_wins'' False ''number'',
      fld ''total_losses'' False ''number'',
      fld ''win_rate'' False ''number'',
      fld ''max_drawdown'' False ''number'',
      fld ''best_month'' True ''string | null'',
      fld ''best_month_pnl'' True ''number | null'',
      fld ''sharpe_like'' True ''number | null'',
      fld ''accuracy'' False ''number'',
      fld ''stop_reason'' False ''string'']"

definition LottoTimelineEntry_fields :: "ts_field list" where
  "LottoTimelineEntry_fields =
     [fld ''date'' False ''string'',
      fld ''capital_start'' False ''number'',
      fld ''capital_end'' False ''number'',
      fld ''stake_total'' False ''number'',
      fld ''pnl'' False ''number'',
      fld ''bets'' False ''LottoTimelineBet[]'',
      fld ''predictions'' False ''LottoTimelinePrediction[]'',
      fld ''hits'' False ''string[]'',
      fld ''drawdown'' False ''number'',
      fld ''daily_return'' False ''number'',
      fld ''capital_halted'' False ''boolean'']"

text \<open>The field names the specification lists for the summary and for a timeline entry.\<close>

definition spec_summary_fields :: "string list" where
  "spec_summary_fields =
     [''final_balance'', ''total_bets'', ''total_wins'', ''total_losses'', ''win_rate'',
      ''max_drawdown'', ''best_month'', ''best_month_pnl'', ''sharpe_like'', ''accuracy'',
      ''stop_reason'']"

definition spec_timeline_fields :: "string list" where
  "spec_timeline_fields =
     [''date'', ''capital_start'', ''capital_end'', ''stake_total'', ''pnl'', ''bets'',
      ''predictions'', ''hits'', ''drawdown'', ''daily_return'', ''capital_halted'']"

text \<open>
  The values of these types, as the engine produces them. A calendar date is a triple of
  year, month and day, a month a pair of year and month; money and ratios are exact
  rationals.
\<close>

type_synonym date = "nat \<times> nat \<times> nat"

record LottoTimelineBet =
  bet_number :: string
  stake :: rat
  hit :: bool
  payout_net :: rat
  bet_rank :: "nat option"
  bet_probability :: "rat option"

record LottoTimelinePrediction =
  pred_rank :: nat
  pred_number :: string
  pred_probability :: rat

record LottoTimelineEntry =
  date :: date
  capital_start :: rat
  capital_end :: rat
  stake_total :: rat
  pnl :: rat
  bets :: "LottoTimelineBet list"
  predictions :: "LottoTimelinePrediction list"
  hits :: "string list"
  drawdown :: rat
  daily_return :: rat
  capital_halted :: bool

record LottoBacktestSummary =
  final_balance :: rat
  total_bets :: nat
  total_wins :: nat
  total_losses :: nat
  win_rate :: rat
  max_drawdown :: rat
  best_month :: "(nat \<times> nat) option"
  best_month_pnl :: "rat option"
  sharpe_like :: "rat option"
  accuracy :: rat
  stop_reason :: string

record LottoBacktestCharts =
  capital_curve :: "(date \<times> rat) list"
  accuracy_curve :: "(date \<times> rat) list"
  profit_curve :: "(date \<times> rat) list"

text \<open>
  \<open>BacktestConfig\<close>, which the response echoes. The two payout multipliers and the two
  risk ratios of the nested \<open>payout_rules\<close> and \<open>risk_limits\<close> are fields of the one
  record here.
\<close>

record BacktestConfig =
  cfg_capital :: rat
  cfg_date_start :: date
  cfg_date_end :: date
  cfg_region :: string
  cfg_model :: string
  cfg_top_k :: nat
  cfg_digits :: int
  cfg_strategy :: LottoStrategy
  cfg_jackpot_multiplier :: rat
  cfg_loss_multiplier :: rat
  cfg_max_daily_stake_ratio :: rat
  cfg_max_single_stake_ratio :: rat
  cfg_lookback_draws :: "nat option"
  cfg_seed :: "int option"

record LottoBacktestResponse =
  config :: BacktestConfig
  summary :: LottoBacktestSummary
  timeline :: "LottoTimelineEntry list"
  charts :: LottoBacktestCharts

section \<open>The Backtest Pro page: how a result is shown\<close>




section \<open>The backtesting engine\<close>

text \<open>
  The engine runs in the Python backend behind \<open>POST /backtest/lotto/run\<close>; the frontend
  holds only its caller and the types of its response. The definitions of this section
  follow the specification's text.
\<close>

text \<open>
  Modelled from the spec: the error taxonomy of section 7, raised by the missing engine.
\<close>

datatype engine_error =
    ConfigError
  | DataUnavailableError
  | StrategyError
  | PluginInvocationError

text \<open>
  Modelled from the spec: \<open>DrawRecord\<close>, a date with the official prize numbers of the
  draw; the backend's draw storage type is missing.
\<close>

record DrawRecord =
  draw_date :: date
  prize_numbers :: "string list"

text \<open>
  Modelled from the spec: the external collaborators of the engine and its constants, which
  are missing with the backend. \<open>fetch\<close> is \<open>DrawHistoryProvider.fetch\<close> (the empty list
  stands for \<open>NoDataError\<close>); \<open>score\<close> is \<open>PredictionModel.score\<close> on the history before
  the day, the lookback window, the digits, top-K and the seed; \<open>propose\<close> is the staking
  strategy selected by the descriptor, which may fail; \<open>carry\<close> threads the strategy state
  from one day to the next; \<open>min_viable_stake\<close> is the threshold of the halt;
  \<open>square_root\<close> is the square root routine of the numeric library.
\<close>

record 's engine_env =
  fetch :: "string \<Rightarrow> date \<Rightarrow> date \<Rightarrow> DrawRecord list"
  score :: "DrawRecord list \<Rightarrow> nat option \<Rightarrow> int \<Rightarrow> nat \<Rightarrow> int option \<Rightarrow> LottoTimelinePrediction list"
  propose :: "LottoStrategy \<Rightarrow> rat \<Rightarrow> LottoTimelinePrediction list \<Rightarrow> 's \<Rightarrow> engine_error + (string \<times> rat) list"
  carry :: "'s \<Rightarrow> LottoTimelineBet list \<Rightarrow> 's"
  initial_state :: 's
  min_viable_stake :: rat
  square_root :: "rat \<Rightarrow> rat"

text \<open>
  Modelled from the spec: the order of calendar dates, for the check
  \<open>date_start > date_end\<close> of the missing \<open>run\<close>.
\<close>

fun date_less :: "date \<Rightarrow> date \<Rightarrow> bool" where
  "date_less (y1, m1, d1) (y2, m2, d2) =
     (y1 < y2 \<or> (y1 = y2 \<and> (m1 < m2 \<or> (m1 = m2 \<and> d1 < d2))))"

text \<open>
  Modelled from the spec: the validation at the head of the missing \<open>run\<close>, section 4.1:
  "Fails with ConfigError if date_start > date_end, capital \<le> 0, digits outside [1,5], or
  either risk ratio outside (0,1]."
\<close>

definition valid_config :: "BacktestConfig \<Rightarrow> bool" where
  "valid_config cfg =
     (\<not> date_less (cfg_date_end cfg) (cfg_date_start cfg)
      \<and> \<not> cfg_capital cfg \<le> 0
      \<and> 1 \<le> cfg_digits cfg \<and> cfg_digits cfg \<le> 5
      \<and> 0 < cfg_max_daily_stake_ratio cfg \<and> cfg_max_daily_stake_ratio cfg \<le> 1
      \<and> 0 < cfg_max_single_stake_ratio cfg \<and> cfg_max_single_stake_ratio cfg \<le> 1)"

text \<open>
  Modelled from the spec: the head set of a draw, section 3: the numbers' trailing
  \<open>digits\<close> characters, deduplicated.
\<close>

definition head_set :: "int \<Rightarrow> DrawRecord \<Rightarrow> string list" where
  "head_set k draw =
     remdups (map (\<lambda>n. drop (length n - nat k) n) (prize_numbers draw))"

text \<open>
  Modelled from the spec: the check of a strategy's output shape, section 4.2:
  non-negative stakes on known candidate numbers.
\<close>

definition valid_proposal :: "LottoTimelinePrediction list \<Rightarrow> (string \<times> rat) list \<Rightarrow> bool" where
  "valid_proposal preds proposal =
     list_all (\<lambda>(n, s). 0 \<le> s \<and> n \<in> set (map pred_number preds)) proposal"

text \<open>
  Modelled from the spec: \<open>RiskLimiter.clamp\<close>, section 4.3: each stake is capped to
  \<open>capital_start \<times> max_single_stake_ratio\<close>; if the capped stakes sum to more than
  \<open>capital_start \<times> max_daily_stake_ratio\<close> all are scaled by \<open>daily_cap / sum\<close>;
  zero stakes are dropped.
\<close>

definition clamp :: "rat \<Rightarrow> (string \<times> rat) list \<Rightarrow> BacktestConfig \<Rightarrow> (string \<times> rat) list" where
  "clamp c proposal cfg =
     (let single_cap = c * cfg_max_single_stake_ratio cfg;
          capped = map (\<lambda>(n, s). (n, min s single_cap)) proposal;
          total = sum_list (map snd capped);
          daily_cap = c * cfg_max_daily_stake_ratio cfg;
          scaled = (if total > daily_cap
                    then map (\<lambda>(n, s). (n, s * (daily_cap / total))) capped
                    else capped)
      in filter (\<lambda>(n, s). s \<noteq> 0) scaled)"

text \<open>
  Modelled from the spec: rounding to the currency's smallest unit, taken as 1, half to
  even, section 4.4.
\<close>

definition round_half_even :: "rat \<Rightarrow> rat" where
  "round_half_even x =
     (let f = \<lfloor>x\<rfloor>; d = x - of_int f
      in if d < 1 / 2 then of_int f
         else if d > 1 / 2 then of_int (f + 1)
         else if even f then of_int f else of_int (f + 1))"

text \<open>
  Modelled from the spec: \<open>PayoutCalculator.resolve\<close>, section 4.4: a bet hits iff its
  number is in the draw's head set; \<open>payout_net\<close> is \<open>stake \<times> (jackpot_multiplier - 1)\<close>
  on a hit and \<open>stake \<times> loss_multiplier\<close> on a miss. The bet carries the rank and the
  probability of its prediction.
\<close>

definition resolve ::
  "BacktestConfig \<Rightarrow> string list \<Rightarrow> LottoTimelinePrediction list \<Rightarrow> string \<times> rat \<Rightarrow> LottoTimelineBet" where
  "resolve cfg heads preds b =
     (let p = find (\<lambda>q. pred_number q = fst b) preds;
          h = (fst b \<in> set heads)
      in \<lparr>bet_number = fst b,
          stake = snd b,
          hit = h,
          payout_net = round_half_even
            (if h then snd b * (cfg_jackpot_multiplier cfg - 1)
             else snd b * cfg_loss_multiplier cfg),
          bet_rank = map_option pred_rank p,
          bet_probability = map_option pred_probability p\<rparr>)"

text \<open>
  Modelled from the spec: the state the missing day loop carries, section 4.1: the
  capital, the running peak of \<open>capital_end\<close> (none before the first day), the halt
  flag, the strategy state and the draws already seen.
\<close>

record 's engine_state =
  st_capital :: rat
  st_peak :: "rat option"
  st_halted :: bool
  st_strategy :: 's
  st_history :: "DrawRecord list"

text \<open>
  Modelled from the spec: step 1 of the missing day loop: a halted day yields "a
  pass-through entry with capital pinned and empty bets/predictions".
\<close>

definition pass_through_entry :: "'s engine_state \<Rightarrow> DrawRecord \<Rightarrow> LottoTimelineEntry" where
  "pass_through_entry st draw =
     \<lparr>date = draw_date draw,
      capital_start = st_capital st,
      capital_end = st_capital st,
      stake_total = 0,
      pnl = 0,
      bets = [],
      predictions = [],
      hits = [],
      drawdown = (case st_peak st of None \<Rightarrow> 0 | Some p \<Rightarrow> max 0 (p - st_capital st)),
      daily_return = 0,
      capital_halted = True\<rparr>"

text \<open>
  Modelled from the spec: steps 1 to 7 of the missing day loop, section 4.1, for one draw.
  A failing strategy, a plugin failure and a malformed proposal all abort with
  \<open>StrategyError\<close> (section 7).
\<close>

definition day_step ::
  "'s engine_env \<Rightarrow> BacktestConfig \<Rightarrow> 's engine_state \<Rightarrow> DrawRecord
     \<Rightarrow> engine_error + (LottoTimelineEntry \<times> 's engine_state)" where
  "day_step env cfg st draw =
     (if st_halted st
      then Inr (pass_through_entry st draw, st\<lparr>st_history := st_history st @ [draw]\<rparr>)
      else
        (let preds = score env (st_history st) (cfg_lookback_draws cfg) (cfg_digits cfg)
                       (cfg_top_k cfg) (cfg_seed cfg)
         in case propose env (cfg_strategy cfg) (st_capital st) preds (st_strategy st) of
              Inl e \<Rightarrow> Inl StrategyError
            | Inr proposal \<Rightarrow>
                if \<not> valid_proposal preds proposal then Inl StrategyError
                else
                  (let committed = clamp (st_capital st) proposal cfg;
                       bs = map (resolve cfg (head_set (cfg_digits cfg) draw) preds) committed;
                       c_end = st_capital st + sum_list (map payout_net bs);
                       peak = (case st_peak st of None \<Rightarrow> c_end | Some p \<Rightarrow> max p c_end);
                       halted = (c_end \<le> 0 \<or> c_end \<le> min_viable_stake env)
                   in Inr
                     (\<lparr>date = draw_date draw,
                       capital_start = st_capital st,
                       capital_end = c_end,
                       stake_total = sum_list (map stake bs),
                       pnl = c_end - st_capital st,
                       bets = bs,
                       predictions = preds,
                       hits = map bet_number (filter hit bs),
                       drawdown = max 0 (peak - c_end),
                       daily_return =
                         (if st_capital st = 0 then 0
                          else (c_end - st_capital st) / st_capital st),
                       capital_halted = halted\<rparr>,
                      \<lparr>st_capital = c_end,
                       st_peak = Some peak,
                       st_halted = halted,
                       st_strategy = carry env (st_strategy st) bs,
                       st_history = st_history st @ [draw]\<rparr>))))"

text \<open>
  Modelled from the spec: the missing day loop over the draws in date order. It returns
  the entries appended so far and the error that aborted it, if any.
\<close>

fun simulate ::
  "'s engine_env \<Rightarrow> BacktestConfig \<Rightarrow> 's engine_state \<Rightarrow> DrawRecord list
     \<Rightarrow> engine_error option \<times> LottoTimelineEntry list" where
  "simulate env cfg st [] = (None, [])"
| "simulate env cfg st (draw # draws) =
     (case day_step env cfg st draw of
        Inl e \<Rightarrow> (Some e, [])
      | Inr (entry, st') \<Rightarrow>
          (case simulate env cfg st' draws of (err, entries) \<Rightarrow> (err, entry # entries)))"

text \<open>
  Modelled from the spec: the calendar month with the highest summed pnl, section 3; the
  earliest month wins a tie.
\<close>

fun best_of :: "((nat \<times> nat) \<times> rat) list \<Rightarrow> ((nat \<times> nat) \<times> rat) option" where
  "best_of [] = None"
| "best_of (x # xs) =
     (case best_of xs of
        None \<Rightarrow> Some x
      | Some y \<Rightarrow> if snd y > snd x then Some y else Some x)"

text \<open>
  Modelled from the spec: the calendar month of an entry, for the grouping of the missing
  summary reduction.
\<close>

definition month_of :: "LottoTimelineEntry \<Rightarrow> nat \<times> nat" where
  "month_of e = (fst (date e), fst (snd (date e)))"

text \<open>
  Modelled from the spec: the pnl summed by calendar month, in the order in which the
  months first occur, for the missing summary reduction.
\<close>

definition monthly_pnl :: "LottoTimelineEntry list \<Rightarrow> ((nat \<times> nat) \<times> rat) list" where
  "monthly_pnl entries =
     map (\<lambda>m. (m, sum_list (map pnl (filter (\<lambda>e. month_of e = m) entries))))
       (remdups (map month_of entries))"

text \<open>
  Modelled from the spec: the mean of the daily returns, for \<open>sharpe_like\<close> of the missing
  summary reduction.
\<close>

definition mean :: "rat list \<Rightarrow> rat" where
  "mean xs = sum_list xs / of_nat (length xs)"

text \<open>
  Modelled from the spec: the variance of the daily returns, taken as the mean squared
  deviation, for \<open>sharpe_like\<close> of the missing summary reduction.
\<close>

definition variance :: "rat list \<Rightarrow> rat" where
  "variance xs = mean (map (\<lambda>x. (x - mean xs) * (x - mean xs)) xs)"

text \<open>
  Modelled from the spec: \<open>sharpe_like\<close> of the missing summary reduction, section 3: mean
  over standard deviation of the daily returns times \<open>\<surd>365\<close>, null if the variance is
  zero or there are fewer than two active days.
\<close>

definition sharpe_like_of :: "'s engine_env \<Rightarrow> LottoTimelineEntry list \<Rightarrow> rat option" where
  "sharpe_like_of env entries =
     (let rs = map daily_return entries
      in if length (filter (\<lambda>e. \<not> capital_halted e) entries) < 2 \<or> variance rs = 0
         then None
         else Some (mean rs / square_root env (variance rs) * square_root env 365))"

text \<open>
  Modelled from the spec: the reduction of the finished timeline into \<open>SummaryStats\<close>,
  sections 3 and 4.1. Pass-through entries have no bets, so the sums run over every entry.
\<close>

definition summarize ::
  "'s engine_env \<Rightarrow> BacktestConfig \<Rightarrow> LottoTimelineEntry list \<Rightarrow> LottoBacktestSummary" where
  "summarize env cfg entries =
     (let all_bets = concat (map bets entries);
          n = length all_bets;
          w = length (filter hit all_bets);
          best = best_of (monthly_pnl entries)
      in \<lparr>final_balance = (if entries = [] then cfg_capital cfg else capital_end (last entries)),
          total_bets = n,
          total_wins = w,
          total_losses = n - w,
          win_rate = (if n = 0 then 0 else of_nat w / of_nat n),
          max_drawdown = foldr max (map drawdown entries) 0,
          best_month = map_option fst best,
          best_month_pnl = map_option snd best,
          sharpe_like = sharpe_like_of env entries,
          accuracy = (if n = 0 then 0 else of_nat w / of_nat n),
          stop_reason =
            (if list_ex capital_halted entries then ''capital_depleted'' else ''completed'')\<rparr>)"

text \<open>
  Modelled from the spec: the accuracy curve of the missing chart aggregation, section
  4.1: cumulative hits over cumulative bets, 0 while there is no bet.
\<close>

fun accuracy_points :: "nat \<Rightarrow> nat \<Rightarrow> LottoTimelineEntry list \<Rightarrow> (date \<times> rat) list" where
  "accuracy_points w n [] = []"
| "accuracy_points w n (e # es) =
     (let w' = w + length (filter hit (bets e)); n' = n + length (bets e)
      in (date e, if n' = 0 then 0 else of_nat w' / of_nat n') # accuracy_points w' n' es)"

text \<open>
  Modelled from the spec: the three chart series of the missing chart aggregation, section
  4.1, each in date order.
\<close>

definition chart_series :: "LottoTimelineEntry list \<Rightarrow> LottoBacktestCharts" where
  "chart_series entries =
     \<lparr>capital_curve = map (\<lambda>e. (date e, capital_end e)) entries,
      accuracy_curve = accuracy_points 0 0 entries,
      profit_curve = map (\<lambda>e. (date e, pnl e)) entries\<rparr>"

text \<open>
  Modelled from the spec: the outcomes of the missing \<open>run\<close>: a failure before the
  simulation, a strategy error with the timeline accumulated so far (section 7), or the
  response.
\<close>

datatype run_result =
    Failed engine_error
  | Aborted engine_error "LottoTimelineEntry list"
  | Completed LottoBacktestResponse

text \<open>
  Modelled from the spec: \<open>run(config)\<close> of the missing \<open>BacktestEngine\<close>, section 4.1.
  The configuration is validated first, then the draws are pulled, then the day loop runs
  from the configured capital.
\<close>

definition run :: "'s engine_env \<Rightarrow> BacktestConfig \<Rightarrow> run_result" where
  "run env cfg =
     (if \<not> valid_config cfg then Failed ConfigError
      else
        (let draws = fetch env (cfg_region cfg) (cfg_date_start cfg) (cfg_date_end cfg)
         in if draws = [] then Failed DataUnavailableError
            else
              (case simulate env cfg
                      \<lparr>st_capital = cfg_capital cfg, st_peak = None, st_halted = False,
                       st_strategy = initial_state env, st_history = []\<rparr> draws of
                 (Some e, entries) \<Rightarrow> Aborted e entries
               | (None, entries) \<Rightarrow>
                   Completed
                     \<lparr>config = cfg,
                      summary = summarize env cfg entries,
                      timeline = entries,
                      charts = chart_series entries\<rparr>)))"

text \<open>
  The capital chain of a timeline that starts from the capital \<open>c\<close>: each entry starts
  where the one before it ended. It is the invariant of the day loop in the proofs.
\<close>

fun capital_chain :: "rat \<Rightarrow> LottoTimelineEntry list \<Rightarrow> bool" where
  "capital_chain c [] = True"
| "capital_chain c (e # es) = (capital_start e = c \<and> capital_chain (capital_end e) es)"

subsection \<open>Scenarios\<close>

text \<open>
  Modelled from the spec: the \<open>fixed\<close> strategy of section 4.2, which "stakes a configured
  constant amount on each of the first count ranked candidates", staking on as many as are
  available; any other strategy type is unknown to it.
\<close>

definition fixed_strategy ::
  "rat \<Rightarrow> nat \<Rightarrow> LottoStrategy \<Rightarrow> rat \<Rightarrow> LottoTimelinePrediction list \<Rightarrow> unit
     \<Rightarrow> engine_error + (string \<times> rat) list" where
  "fixed_strategy amount n strat c preds s =
     (if strategy_type strat = ''fixed''
      then Inr (map (\<lambda>p. (pred_number p, amount)) (take n preds))
      else Inl StrategyError)"

text \<open>
  Modelled from the spec: a square root for the scenarios, by Heron's iteration; the
  numeric library of the backend is missing.
\<close>

fun heron :: "nat \<Rightarrow> rat \<Rightarrow> rat \<Rightarrow> rat" where
  "heron 0 x g = g"
| "heron (Suc n) x g = heron n x ((g + x / g) / 2)"

text \<open>
  Modelled from the spec: the configuration of scenarios A to D of section 8 with the
  given capital: jackpot multiplier 70, loss multiplier \<open>-1\<close>, the fixed strategy, two
  digits; the risk ratios do not bind.
\<close>

definition scenario_config :: "rat \<Rightarrow> BacktestConfig" where
  "scenario_config c =
     \<lparr>cfg_capital = c,
      cfg_date_start = (2025, 1, 1),
      cfg_date_end = (2025, 1, 10),
      cfg_region = ''mien-bac'',
      cfg_model = ''frequency'',
      cfg_top_k = 1,
      cfg_digits = 2,
      cfg_strategy = \<lparr>strategy_type = ''fixed'', options = Some [], plugin_id = Null\<rparr>,
      cfg_jackpot_multiplier = 70,
      cfg_loss_multiplier = - 1,
      cfg_max_daily_stake_ratio = 1,
      cfg_max_single_stake_ratio = 1,
      cfg_lookback_draws = None,
      cfg_seed = None\<rparr>"

text \<open>
  Modelled from the spec: the collaborators of scenarios A to D of section 8: a provider
  that yields the given draws, a model whose top prediction is always the number 12 with
  probability one half, the fixed strategy on that prediction, and the smallest currency
  unit as the threshold of the halt.
\<close>

definition scenario_env :: "DrawRecord list \<Rightarrow> rat \<Rightarrow> unit engine_env" where
  "scenario_env draws amount =
     \<lparr>fetch = (\<lambda>r a b. draws),
      score = (\<lambda>h lb k t s.
        [\<lparr>pred_rank = 1, pred_number = ''12'', pred_probability = 1 / 2\<rparr>]),
      propose = fixed_strategy amount 1,
      carry = (\<lambda>s b. s),
      initial_state = (),
      min_viable_stake = 1,
      square_root = (\<lambda>x. heron 5 x 1)\<rparr>"

text \<open>
  Modelled from the spec: a draw of the scenarios, on a day of January 2025 with one prize
  number.
\<close>

definition draw_on :: "nat \<Rightarrow> string \<Rightarrow> DrawRecord" where
  "draw_on d n = \<lparr>draw_date = (2025, 1, d), prize_numbers = [n]\<rparr>"

section \<open>Properties of the dashboard code\<close>

subsection \<open>Helper facts\<close>

lemma js_div_zero_not_finite: "js_div a (Fin 0) \<noteq> Fin r"
  by (cases a) auto

lemma Math_max_list_finite:
  "xs \<noteq> [] \<Longrightarrow> \<exists>r. Math_max_list (map (\<lambda>x. Fin (f x)) xs) = Fin r"
proof (induction xs)
  case Nil
  then show ?case by simp
next
  case (Cons a xs)
  show ?case
  proof (cases "xs = []")
    case True
    then show ?thesis by (simp add: Math_max_list_def)
  next
    case False
    with Cons obtain r where "Math_max_list (map (\<lambda>x. Fin (f x)) xs) = Fin r" by blast
    then show ?thesis by (simp add: Math_max_list_def)
  qed
qed

lemma getIntensity_finite: "\<exists>r. getIntensity (Fin c) (Fin m) = Fin r"
  by (simp add: getIntensity_def js_strict_eq_def)

lemma percent_finite: "\<exists>r. percent (Fin c) (Fin m) = Fin r"
  by (simp add: percent_def)

lemma TailHeatmap_zero_max:
  assumes "xs \<noteq> []" and "Math_max_list (map (\<lambda>item. Fin (tail_count item)) xs) = Fin 0"
  shows "TailHeatmap xs = Some (map (\<lambda>item. (tail item, Fin 0)) xs)"
  using assms by (simp add: TailHeatmap_def getIntensity_def js_strict_eq_def)

lemma NumberFrequencyList_no_positive_max:
  assumes "ys \<noteq> []" and "\<not> js_gt (Math_max_list (map (\<lambda>item. Fin (freq_count item)) ys)) (Fin 0)"
  shows "NumberFrequencyList ys = Some (map (\<lambda>item. (freq_number item, Fin 0)) ys)"
  using assms by (simp add: NumberFrequencyList_def percent_def)

lemma TailHeatmap_finite:
  assumes "TailHeatmap xs = Some cells"
  shows "\<forall>c \<in> set cells. \<exists>r. snd c = Fin r"
proof -
  from assms have ne: "xs \<noteq> []" by (auto simp: TailHeatmap_def)
  from Math_max_list_finite [OF ne, of tail_count] obtain m
    where m: "Math_max_list (map (\<lambda>item. Fin (tail_count item)) xs) = Fin m" by blast
  from assms ne m
  have "cells = map (\<lambda>item. (tail item, getIntensity (Fin (tail_count item)) (Fin m))) xs"
    by (auto simp: TailHeatmap_def)
  then show ?thesis using getIntensity_finite by auto
qed

lemma NumberFrequencyList_finite:
  assumes "NumberFrequencyList ys = Some bars"
  shows "\<forall>b \<in> set bars. \<exists>r. snd b = Fin r"
proof -
  from assms have ne: "ys \<noteq> []" by (auto simp: NumberFrequencyList_def)
  from Math_max_list_finite [OF ne, of freq_count] obtain m
    where m: "Math_max_list (map (\<lambda>item. Fin (freq_count item)) ys) = Fin m" by blast
  from assms ne m
  have "bars = map (\<lambda>item. (freq_number item, percent (Fin (freq_count item)) (Fin m))) ys"
    by (auto simp: NumberFrequencyList_def)
  then show ?thesis using percent_finite by auto
qed

lemma filter_is_row_map: "filter is_row (map Grid_row xs) = map Grid_row xs"
  by (induction xs) auto

lemma slice_final_nonneg: "0 \<le> r \<Longrightarrow> slice_final len (Fin r) = nat (min \<lfloor>r\<rfloor> (int len))"
  by (simp add: js_trunc_def Let_def)

lemma prediction_rows_nonneg:
  assumes "0 \<le> r"
  shows "prediction_rows d blurb (Fin r)
         = map Grid_row (take (nat \<lfloor>r\<rfloor>) (createDisplayResults d blurb))"
proof (cases "length (createDisplayResults d blurb) = 0")
  case True
  then show ?thesis by (simp add: prediction_rows_def prediction_grid_def)
next
  case False
  have "take (nat (min \<lfloor>r\<rfloor> (int (length xs)))) xs = take (nat \<lfloor>r\<rfloor>) xs"
    for xs :: "PredictionResult list"
    by (simp add: min_def)
  with False show ?thesis
    by (simp add: prediction_rows_def prediction_grid_def Let_def filter_is_row_map
        Array_slice0_def slice_final_nonneg [OF assms] del: slice_final.simps)
qed

lemma ceiling_minus_one_rat: "\<lceil>- 1 :: rat\<rceil> = - 1"
  by (metis ceiling_of_int of_int_minus of_int_1)

lemma ranks_enumerate:
  "map (\<lambda>p. int (fst p) + 1) (enumerate 0 xs) = map (\<lambda>i. int i + 1) [0..<length xs]"
  by (rule nth_equalityI) (simp_all add: nth_enumerate_eq)

lemma createDisplayResults_ranks:
  assumes "\<not> nonempty_array (results d)"
  shows "map rank (createDisplayResults (Some d) fb)
         = map (\<lambda>i. int i + 1) [0..<length (createDisplayResults (Some d) fb)]"
proof -
  consider (s) "nonempty_array (scores d)"
    | (h) "\<not> nonempty_array (scores d)" "nonempty_array (recommended_heads d)"
    | (n) "\<not> nonempty_array (scores d)" "\<not> nonempty_array (recommended_heads d)"
    by blast
  then show ?thesis
  proof cases
    case s
    then show ?thesis using assms
      by (simp add: createDisplayResults_def ranks_enumerate o_def split_def)
  next
    case h
    then show ?thesis using assms
      by (simp add: createDisplayResults_def ranks_enumerate Let_def o_def split_def)
  next
    case n
    then show ?thesis using assms by (simp add: createDisplayResults_def)
  qed
qed

lemma createDisplayResults_scores:
  assumes "\<not> nonempty_array (results d)" and "nonempty_array (scores d)"
  shows "createDisplayResults (Some d) fb
         = map (\<lambda>(index, score).
                  \<lparr>number = score_number score,
                   probability = nullish (score_probability score) (Fin 0),
                   rank = int index + 1,
                   supporting_metrics = Undefined,
                   explanation = Val (nullish (response_notes d) fb)\<rparr>)
             (enumerate 0 (elements (scores d)))"
  using assms by (simp add: createDisplayResults_def)

lemma createDisplayResults_heads:
  assumes "\<not> nonempty_array (results d)" and "\<not> nonempty_array (scores d)"
  shows "createDisplayResults (Some d) fb
         = map (\<lambda>(index, n).
                  \<lparr>number = n,
                   probability = uniform_probability (elements (recommended_heads d)),
                   rank = int index + 1,
                   supporting_metrics = Undefined,
                   explanation = Val (nullish (response_notes d) fb)\<rparr>)
             (enumerate 0 (elements (recommended_heads d)))"
  using assms
  by (cases "recommended_heads d") (simp_all add: createDisplayResults_def Let_def)

lemma nonempty_array_elements: "nonempty_array a \<longleftrightarrow> elements a \<noteq> []"
  by (cases a) auto

lemma useAsync_snoc: "useAsync opts (evs @ [ev]) = async_step (useAsync opts evs) ev"
  by (simp add: useAsync_def)

lemma createDisplayResults_uniform:
  assumes "\<not> nonempty_array (results d)" and "\<not> nonempty_array (scores d)"
  shows "\<forall>x \<in> set (createDisplayResults (Some d) fb).
           probability x = uniform_probability (elements (recommended_heads d))"
  using assms by (auto simp: createDisplayResults_def Let_def)

lemma uniform_probability_finite: "\<exists>r. uniform_probability hs = Fin r"
  by (simp add: uniform_probability_def)


subsection \<open>Helper facts on the engine\<close>

lemma day_step_entry:
  assumes "day_step env cfg st draw = Inr (entry, st')"
  shows "capital_start entry = st_capital st"
    and "capital_end entry = st_capital st'"
    and "capital_halted entry = st_halted st'"
    and "st_halted st \<Longrightarrow> st_halted st' \<and> st_capital st' = st_capital st"
  using assms
  by (auto simp: day_step_def pass_through_entry_def Let_def split: if_splits sum.splits)



lemma simulate_chain:
  "simulate env cfg st draws = (err, entries) \<Longrightarrow> capital_chain (st_capital st) entries"
proof (induction draws arbitrary: st err entries)
  case Nil
  then show ?case by simp
next
  case (Cons draw draws)
  show ?case
  proof (cases "day_step env cfg st draw")
    case (Inl e)
    with Cons.prems show ?thesis by simp
  next
    case (Inr p)
    obtain entry st' where p: "p = (entry, st')" by (cases p)
    obtain err' rest where r: "simulate env cfg st' draws = (err', rest)" by (cases "simulate env cfg st' draws")
    from Cons.prems Inr p r have e: "entries = entry # rest" by simp
    from Cons.IH [OF r] have "capital_chain (st_capital st') rest" .
    with day_step_entry(1,2) [of env cfg st draw entry st'] Inr p e show ?thesis by simp
  qed
qed

lemma capital_chain_nth:
  "capital_chain c es \<Longrightarrow> (es \<noteq> [] \<longrightarrow> capital_start (es ! 0) = c) \<and> (\<forall>i. Suc i < length es \<longrightarrow> capital_start (es ! Suc i) = capital_end (es ! i))"
proof (induction es arbitrary: c)
  case Nil
  then show ?case by simp
next
  case (Cons e es)
  then have c: "capital_start e = c" and ch: "capital_chain (capital_end e) es" by simp_all
  from Cons.IH [OF ch] have ih: "(es \<noteq> [] \<longrightarrow> capital_start (es ! 0) = capital_end e)" "(\<forall>i. Suc i < length es \<longrightarrow> capital_start (es ! Suc i) = capital_end (es ! i))" by simp_all
  have "capital_start ((e # es) ! Suc i) = capital_end ((e # es) ! i)" if "Suc i < length (e # es)" for i
  proof (cases i)
    case 0
    with that ih(1) show ?thesis by auto
  next
    case (Suc j)
    with that ih(2) show ?thesis by simp
  qed
  with c show ?case by simp
qed

lemma simulate_length:
  "simulate env cfg st draws = (None, entries) \<Longrightarrow> length entries = length draws"
proof (induction draws arbitrary: st entries)
  case Nil
  then show ?case by simp
next
  case (Cons draw draws)
  then show ?case
    by (auto split: sum.splits prod.splits)
qed





lemma run_Completed_simulate:
  assumes "run env cfg = Completed resp"
  shows "valid_config cfg"
    and "fetch env (cfg_region cfg) (cfg_date_start cfg) (cfg_date_end cfg) \<noteq> []"
    and "simulate env cfg
           \<lparr>st_capital = cfg_capital cfg, st_peak = None, st_halted = False,
            st_strategy = initial_state env, st_history = []\<rparr>
           (fetch env (cfg_region cfg) (cfg_date_start cfg) (cfg_date_end cfg))
         = (None, timeline resp)"
    and "summary resp = summarize env cfg (timeline resp)"
    and "config resp = cfg"
  using assms
  by (auto simp: run_def Let_def split: if_splits prod.splits option.splits)






subsection \<open>The claims on the frontend code\<close>

text \<open>
  Claim C2. The summary of a run response is declared with exactly the fields
  \<open>final_balance, total_bets, total_wins, total_losses, win_rate, max_drawdown, best_month,
  best_month_pnl, sharpe_like, accuracy, stop_reason\<close>, and a timeline entry with exactly
  the fields \<open>date, capital_start, capital_end, stake_total, pnl, bets, predictions, hits,
  drawdown, daily_return, capital_halted\<close>: the declared names of \<open>LottoBacktestSummary\<close>
  and \<open>LottoTimelineEntry\<close> are the specification's lists, in order and without repetition.
\<close>

theorem C2_response_field_names:
  "map field_name LottoBacktestSummary_fields = spec_summary_fields
   \<and> map field_name LottoTimelineEntry_fields = spec_timeline_fields
   \<and> distinct (map field_name LottoBacktestSummary_fields)
   \<and> distinct (map field_name LottoTimelineEntry_fields)"
  by (simp add: LottoBacktestSummary_fields_def LottoTimelineEntry_fields_def
      spec_summary_fields_def spec_timeline_fields_def fld_def)

text \<open>
  Claim C3. Numeric computations over empty or zero-valued data give the sentinel 0 and never
  divide by zero: the heat intensity is 0 when the maximum count is 0, the width of the percent
  bar is 0 when the maximum count is not positive, and the uniform fallback probability is 0
  for an empty list of recommended heads. Every intensity, every bar width and every
  probability shown from the recommended heads is a finite number, whereas a division by
  zero never is one.
\<close>

theorem C3_zero_data_sentinels:
  "(\<forall>v. getIntensity v (Fin 0) = Fin 0)
   \<and> (\<forall>c m. \<not> js_gt m (Fin 0) \<longrightarrow> percent c m = Fin 0)
   \<and> uniform_probability [] = Fin 0
   \<and> (xs \<noteq> [] \<and> Math_max_list (map (\<lambda>item. Fin (tail_count item)) xs) = Fin 0
        \<longrightarrow> TailHeatmap xs = Some (map (\<lambda>item. (tail item, Fin 0)) xs))
   \<and> (ys \<noteq> [] \<and> \<not> js_gt (Math_max_list (map (\<lambda>item. Fin (freq_count item)) ys)) (Fin 0)
        \<longrightarrow> NumberFrequencyList ys = Some (map (\<lambda>item. (freq_number item, Fin 0)) ys))
   \<and> (\<forall>cells. TailHeatmap xs = Some cells \<longrightarrow> (\<forall>c \<in> set cells. \<exists>r. snd c = Fin r))
   \<and> (\<forall>bars. NumberFrequencyList ys = Some bars \<longrightarrow> (\<forall>b \<in> set bars. \<exists>r. snd b = Fin r))
   \<and> (\<not> nonempty_array (results d) \<and> \<not> nonempty_array (scores d)
        \<longrightarrow> (\<forall>x \<in> set (createDisplayResults (Some d) fb). \<exists>r. probability x = Fin r))
   \<and> (\<forall>a r. js_div a (Fin 0) \<noteq> Fin r)"
proof -
  have 1: "\<forall>v. getIntensity v (Fin 0) = Fin 0"
    by (simp add: getIntensity_def js_strict_eq_def)
  have 2: "\<forall>c m. \<not> js_gt m (Fin 0) \<longrightarrow> percent c m = Fin 0"
    by (simp add: percent_def)
  have 3: "uniform_probability [] = Fin 0"
    by (simp add: uniform_probability_def)
  have 8: "\<not> nonempty_array (results d) \<and> \<not> nonempty_array (scores d)
        \<longrightarrow> (\<forall>x \<in> set (createDisplayResults (Some d) fb). \<exists>r. probability x = Fin r)"
    using createDisplayResults_uniform [of d fb] uniform_probability_finite by metis
  from 1 2 3 8 show ?thesis
    using TailHeatmap_zero_max [of xs] NumberFrequencyList_no_positive_max [of ys]
      TailHeatmap_finite [of xs] NumberFrequencyList_finite [of ys] js_div_zero_not_finite
    by blast
qed

text \<open>
  Two frequency lists whose counts are all zero, a response with two recommended heads and
  neither results nor scores, and the empty list of heads.
\<close>

theorem C3_zero_data_sentinels_witness:
  "TailHeatmap [\<lparr>tail = ''07'', tail_count = 0\<rparr>, \<lparr>tail = ''42'', tail_count = 0\<rparr>]
     = Some [(''07'', Fin 0), (''42'', Fin 0)]
   \<and> NumberFrequencyList [\<lparr>freq_number = ''12345'', freq_count = 0\<rparr>]
     = Some [(''12345'', Fin 0)]
   \<and> map probability (createDisplayResults
        (Some \<lparr>recommended_heads = Some [''12'', ''34''], results = Some [], scores = Some [],
               response_notes = Null\<rparr>) ''fallback'') = [Fin (1 / 2), Fin (1 / 2)]
   \<and> uniform_probability [] = Fin 0"
  using C3_zero_data_sentinels
    [of "[\<lparr>tail = ''07'', tail_count = 0\<rparr>, \<lparr>tail = ''42'', tail_count = 0\<rparr>]"
        "[\<lparr>freq_number = ''12345'', freq_count = 0\<rparr>]"
        "\<lparr>recommended_heads = Some [''12'', ''34''], results = Some [], scores = Some [],
               response_notes = Null\<rparr>" "''fallback''"]
  by (simp add: Math_max_list_def createDisplayResults_def uniform_probability_def
      enumerate_eq_zip Let_def)

text \<open>
  Claim C6, amended. The value \<open>handleDigitsChange\<close> forwards always lies between 1 and 5.
  It is \<open>min(max(value, 1), 5)\<close> for every numeric value other than 0; the value 0, like
  text that is not numeric, falls to the default 2 of \<open>Number(...) || 2\<close>.
\<close>

theorem C6_digits_clamped:
  "handleDigitsChange n
     = (if n = NaN \<or> n = Fin 0 then Fin 2 else Math_min (Math_max n (Fin 1)) (Fin 5))
   \<and> (\<exists>r. handleDigitsChange n = Fin r \<and> 1 \<le> r \<and> r \<le> 5)"
  by (cases n) (auto simp: handleDigitsChange_def js_or_def)

text \<open>The handler at 9, at text that is not a number, and at 2.5.\<close>

theorem C6_digits_clamped_witness:
  "handleDigitsChange (Fin 9) = Fin 5 \<and> handleDigitsChange NaN = Fin 2
   \<and> handleDigitsChange (Fin (5 / 2)) = Fin (5 / 2)"
  using C6_digits_clamped [of "Fin 9"] C6_digits_clamped [of NaN]
    C6_digits_clamped [of "Fin (5 / 2)"]
  by simp

text \<open>
  Claim C6 as stated fails at the value 0: \<open>min(max(0, 1), 5)\<close> is 1, but 0 is falsy and the
  handler forwards the default 2.
\<close>

theorem C6_digits_counterexample:
  "handleDigitsChange (Fin 0) = Fin 2
   \<and> handleDigitsChange (Fin 0) \<noteq> Math_min (Math_max (Fin 0) (Fin 1)) (Fin 5)"
  by (simp add: handleDigitsChange_def js_or_def)

text \<open>
  Claim C7, amended. For every prediction response and every \<open>top_k\<close> that is not negative,
  the rendered prediction list is the first \<open>\<lfloor>top_k\<rfloor>\<close> elements of the display list, so
  it has at most \<open>top_k\<close> rows.
\<close>

theorem C7_rows_at_most_top_k:
  assumes "0 \<le> r"
  shows "prediction_rows d blurb (Fin r)
           = map Grid_row (take (nat \<lfloor>r\<rfloor>) (createDisplayResults d blurb))
         \<and> rat_of_nat (length (prediction_rows d blurb (Fin r))) \<le> r"
proof -
  have "length (prediction_rows d blurb (Fin r)) \<le> nat \<lfloor>r\<rfloor>"
    by (simp add: prediction_rows_nonneg [OF assms])
  then have "rat_of_nat (length (prediction_rows d blurb (Fin r))) \<le> rat_of_nat (nat \<lfloor>r\<rfloor>)"
    by (simp only: of_nat_le_iff)
  also have "\<dots> = of_int \<lfloor>r\<rfloor>" using assms by simp
  also have "\<dots> \<le> r" by (rule of_int_floor_le)
  finally show ?thesis by (simp add: prediction_rows_nonneg [OF assms])
qed

text \<open>Three recommended heads shown with \<open>top_k = 2\<close>.\<close>

theorem C7_rows_at_most_top_k_witness:
  "(0::rat) \<le> 2
   \<and> length (prediction_rows
        (Some \<lparr>recommended_heads = Some [''12'', ''34'', ''56''], results = Some [],
               scores = Some [], response_notes = Undefined\<rparr>)
        ''blurb'' (Fin 2)) = 2"
  using C7_rows_at_most_top_k [of 2
        "Some \<lparr>recommended_heads = Some [''12'', ''34'', ''56''], results = Some [],
               scores = Some [], response_notes = Undefined\<rparr>" "''blurb''"]
  by (simp add: createDisplayResults_def uniform_probability_def enumerate_eq_zip Let_def)

text \<open>
  Claim C7 as stated fails for a negative \<open>top_k\<close>, which \<open>handleTopKChange\<close> forwards
  unchanged: \<open>slice(0, -1)\<close> drops the last element only, so three heads give two rows.
\<close>

theorem C7_rows_counterexample:
  "handleTopKChange (Fin (- 1)) = Fin (- 1)
   \<and> length (prediction_rows
        (Some \<lparr>recommended_heads = Some [''12'', ''34'', ''56''], results = Some [],
               scores = Some [], response_notes = Undefined\<rparr>)
        ''blurb'' (Fin (- 1))) = 2
   \<and> \<not> rat_of_nat (length (prediction_rows
        (Some \<lparr>recommended_heads = Some [''12'', ''34'', ''56''], results = Some [],
               scores = Some [], response_notes = Undefined\<rparr>)
        ''blurb'' (Fin (- 1)))) \<le> - 1"
  by (simp add: prediction_rows_def prediction_grid_def createDisplayResults_def
      handleTopKChange_def js_or_def Array_slice0_def js_trunc_def uniform_probability_def
      enumerate_eq_zip Let_def ceiling_minus_one_rat)

text \<open>
  Claim C8. For a prediction response whose results list is empty, the display list that
  \<open>createDisplayResults\<close> builds has one element for each score, or, when there is no
  score, one for each recommended head, in the order of that list: the element at index
  \<open>i\<close> carries the number of the score or head at index \<open>i\<close> and the rank \<open>i + 1\<close>.
  So the ranks are exactly \<open>1..n\<close> in list order, without duplicates and ascending.
\<close>

theorem C8_ranks_one_based:
  assumes "elements (results d) = []"
  shows "(nonempty_array (scores d) \<longrightarrow>
            length (createDisplayResults (Some d) fallbackNotes) = length (elements (scores d))
            \<and> (\<forall>i < length (elements (scores d)).
                  createDisplayResults (Some d) fallbackNotes ! i
                    = \<lparr>number = score_number (elements (scores d) ! i),
                       probability = nullish (score_probability (elements (scores d) ! i)) (Fin 0),
                       rank = int i + 1,
                       supporting_metrics = Undefined,
                       explanation = Val (nullish (response_notes d) fallbackNotes)\<rparr>))
         \<and> (\<not> nonempty_array (scores d) \<longrightarrow>
            length (createDisplayResults (Some d) fallbackNotes)
              = length (elements (recommended_heads d))
            \<and> (\<forall>i < length (elements (recommended_heads d)).
                  createDisplayResults (Some d) fallbackNotes ! i
                    = \<lparr>number = elements (recommended_heads d) ! i,
                       probability = uniform_probability (elements (recommended_heads d)),
                       rank = int i + 1,
                       supporting_metrics = Undefined,
                       explanation = Val (nullish (response_notes d) fallbackNotes)\<rparr>))
         \<and> map rank (createDisplayResults (Some d) fallbackNotes)
           = map int [1..<Suc (length (createDisplayResults (Some d) fallbackNotes))]
         \<and> (\<forall>i < length (createDisplayResults (Some d) fallbackNotes).
               rank (createDisplayResults (Some d) fallbackNotes ! i) = int i + 1)
         \<and> distinct (map rank (createDisplayResults (Some d) fallbackNotes))
         \<and> sorted (map rank (createDisplayResults (Some d) fallbackNotes))"
proof -
  let ?xs = "createDisplayResults (Some d) fallbackNotes"
  from assms have ne: "\<not> nonempty_array (results d)"
    by (simp add: nonempty_array_elements)
  have sc: "nonempty_array (scores d) \<longrightarrow>
            length ?xs = length (elements (scores d))
            \<and> (\<forall>i < length (elements (scores d)).
                  ?xs ! i
                    = \<lparr>number = score_number (elements (scores d) ! i),
                       probability = nullish (score_probability (elements (scores d) ! i)) (Fin 0),
                       rank = int i + 1,
                       supporting_metrics = Undefined,
                       explanation = Val (nullish (response_notes d) fallbackNotes)\<rparr>)"
  proof
    assume s: "nonempty_array (scores d)"
    show "length ?xs = length (elements (scores d))
            \<and> (\<forall>i < length (elements (scores d)).
                  ?xs ! i
                    = \<lparr>number = score_number (elements (scores d) ! i),
                       probability = nullish (score_probability (elements (scores d) ! i)) (Fin 0),
                       rank = int i + 1,
                       supporting_metrics = Undefined,
                       explanation = Val (nullish (response_notes d) fallbackNotes)\<rparr>)"
      by (simp add: createDisplayResults_scores [OF ne s] nth_enumerate_eq)
  qed
  have hd: "\<not> nonempty_array (scores d) \<longrightarrow>
            length ?xs = length (elements (recommended_heads d))
            \<and> (\<forall>i < length (elements (recommended_heads d)).
                  ?xs ! i
                    = \<lparr>number = elements (recommended_heads d) ! i,
                       probability = uniform_probability (elements (recommended_heads d)),
                       rank = int i + 1,
                       supporting_metrics = Undefined,
                       explanation = Val (nullish (response_notes d) fallbackNotes)\<rparr>)"
  proof
    assume s: "\<not> nonempty_array (scores d)"
    show "length ?xs = length (elements (recommended_heads d))
            \<and> (\<forall>i < length (elements (recommended_heads d)).
                  ?xs ! i
                    = \<lparr>number = elements (recommended_heads d) ! i,
                       probability = uniform_probability (elements (recommended_heads d)),
                       rank = int i + 1,
                       supporting_metrics = Undefined,
                       explanation = Val (nullish (response_notes d) fallbackNotes)\<rparr>)"
      by (simp add: createDisplayResults_heads [OF ne s] nth_enumerate_eq)
  qed
  have r: "map rank ?xs = map (\<lambda>i. int i + 1) [0..<length ?xs]"
    by (rule createDisplayResults_ranks [OF ne])
  have e: "map (\<lambda>i. int i + 1) [0..<n] = map int [1..<Suc n]" for n
    by (rule nth_equalityI) (simp_all del: upt_Suc)
  have nth: "\<forall>i < length ?xs. rank (?xs ! i) = int i + 1"
  proof (intro allI impI)
    fix i assume i: "i < length ?xs"
    then have "rank (?xs ! i) = map rank ?xs ! i" by simp
    also have "\<dots> = int i + 1" using i by (simp only: r) simp
    finally show "rank (?xs ! i) = int i + 1" .
  qed
  have d: "distinct (map rank ?xs)"
    by (simp only: r e) (simp add: distinct_map inj_on_def del: upt_Suc)
  have s: "sorted (map rank ?xs)"
    by (simp only: r e) (simp add: sorted_map del: upt_Suc)
  from r e have re: "map rank ?xs = map int [1..<Suc (length ?xs)]" by simp
  from sc hd re nth d s show ?thesis by blast
qed

text \<open>
  A response with an empty results list and three scores, and one with no score and two
  recommended heads.
\<close>

theorem C8_ranks_one_based_witness:
  "map (\<lambda>x. (number x, rank x)) (createDisplayResults
      (Some \<lparr>recommended_heads = Some [''12'', ''34''], results = Some [],
             scores = Some [\<lparr>score_number = ''07'', score_probability = Val (Fin (1 / 2))\<rparr>,
                            \<lparr>score_number = ''42'', score_probability = Null\<rparr>,
                            \<lparr>score_number = ''99'', score_probability = Val (Fin (1 / 4))\<rparr>],
             response_notes = Null\<rparr>) ''fallback'')
     = [(''07'', 1), (''42'', 2), (''99'', 3)]
   \<and> map (\<lambda>x. (number x, rank x)) (createDisplayResults
      (Some \<lparr>recommended_heads = Some [''12'', ''34''], results = Some [],
             scores = Some [], response_notes = Null\<rparr>) ''fallback'')
     = [(''12'', 1), (''34'', 2)]"
  using C8_ranks_one_based [of
      "\<lparr>recommended_heads = Some [''12'', ''34''], results = Some [],
             scores = Some [\<lparr>score_number = ''07'', score_probability = Val (Fin (1 / 2))\<rparr>,
                            \<lparr>score_number = ''42'', score_probability = Null\<rparr>,
                            \<lparr>score_number = ''99'', score_probability = Val (Fin (1 / 4))\<rparr>],
             response_notes = Null\<rparr>" "''fallback''"]
    C8_ranks_one_based [of
      "\<lparr>recommended_heads = Some [''12'', ''34''], results = Some [],
             scores = Some [], response_notes = Null\<rparr>" "''fallback''"]
  by (simp add: createDisplayResults_def enumerate_eq_zip upt_rec uniform_probability_def Let_def)

text \<open>
  Claim C9. In every state the \<open>useAsync\<close> hook produces (the initial state and the state
  after any sequence of the updates of \<open>execute\<close>), an error that is not null implies that
  the data is null and that loading is false.
\<close>

theorem C9_error_excludes_data:
  "error (useAsync opts events) \<noteq> None
     \<longrightarrow> data (useAsync opts events) = None \<and> \<not> loading (useAsync opts events)"
proof (induction events rule: rev_induct)
  case Nil
  then show ?case by (simp add: useAsync_def useAsync_initial_def)
next
  case (snoc ev evs)
  then show ?case by (cases ev) (simp_all add: useAsync_snoc)
qed

text \<open>A successful load followed by a reload that is rejected: the fresh data is gone.\<close>

theorem C9_error_excludes_data_witness:
  "error (useAsync \<lparr>initialData = Val [''stale''], immediate = None\<rparr>
            [Execute, Resolved (Some [''fresh'']), Execute, Rejected (Some ''timeout'')])
     = Some ''timeout''
   \<and> data (useAsync \<lparr>initialData = Val [''stale''], immediate = None\<rparr>
            [Execute, Resolved (Some [''fresh'']), Execute, Rejected (Some ''timeout'')])
     = None
   \<and> \<not> loading (useAsync \<lparr>initialData = Val [''stale''], immediate = None\<rparr>
            [Execute, Resolved (Some [''fresh'']), Execute, Rejected (Some ''timeout'')])"
  using C9_error_excludes_data [of "\<lparr>initialData = Val [''stale''], immediate = None\<rparr>"
      "[Execute, Resolved (Some [''fresh'']), Execute, Rejected (Some ''timeout'')]"]
  by (simp add: useAsync_def useAsync_initial_def)

text \<open>
  Claim C10. For every request body, the payload \<open>runLottoBacktest\<close> posts has
  \<open>strategy.options\<close> equal to the given options or to \<open>{}\<close>, never undefined, and
  \<open>strategy.plugin_id\<close> equal to the given id or to null, never undefined; the strategy
  type and every field of the body other than \<open>strategy\<close> are passed through unchanged.
\<close>

theorem C10_payload_strategy_defaults:
  "options (strategy (runLottoBacktest_payload body))
     = Some (case options (strategy body) of None \<Rightarrow> [] | Some given \<Rightarrow> given)
   \<and> options (strategy (runLottoBacktest_payload body)) \<noteq> None
   \<and> plugin_id (strategy (runLottoBacktest_payload body))
     = (case plugin_id (strategy body) of Val given \<Rightarrow> Val given | _ \<Rightarrow> Null)
   \<and> plugin_id (strategy (runLottoBacktest_payload body)) \<noteq> Undefined
   \<and> strategy_type (strategy (runLottoBacktest_payload body)) = strategy_type (strategy body)
   \<and> (runLottoBacktest_payload body)\<lparr>strategy := strategy body\<rparr> = body"
  by (cases "plugin_id (strategy body)"; cases "risk_limits body"; cases "payout_rules body")
     (simp_all add: runLottoBacktest_payload_def)

subsection \<open>The claims on the engine\<close>

text \<open>
  Claim C1. For every valid run, that is every run that completes, \<open>capital_start\<close> on the
  first day of the timeline equals \<open>config.capital\<close>, and for every consecutive pair of
  timeline entries (days without a draw have no entry) \<open>capital_start\<close> of the later one
  equals \<open>capital_end\<close> of the earlier one.
\<close>

theorem C1_capital_chain:
  assumes "run env cfg = Completed resp"
  shows "config resp = cfg
         \<and> timeline resp \<noteq> []
         \<and> capital_start (timeline resp ! 0) = cfg_capital (config resp)
         \<and> (\<forall>i. Suc i < length (timeline resp)
               \<longrightarrow> capital_start (timeline resp ! Suc i) = capital_end (timeline resp ! i))"
proof -
  let ?st = "\<lparr>st_capital = cfg_capital cfg, st_peak = None, st_halted = False,
              st_strategy = initial_state env, st_history = []\<rparr>"
  note sim = run_Completed_simulate(3) [OF assms]
  from simulate_length [OF sim] run_Completed_simulate(2) [OF assms]
  have ne: "timeline resp \<noteq> []" by auto
  from simulate_chain [OF sim] have "capital_chain (cfg_capital cfg) (timeline resp)" by simp
  from capital_chain_nth [OF this] ne run_Completed_simulate(5) [OF assms]
  show ?thesis by simp
qed

text \<open>Scenario A followed by scenario B: a hit on the first day, a miss on the second.\<close>

theorem C1_capital_chain_witness:
  "\<exists>resp. run (scenario_env [draw_on 1 ''84512'', draw_on 2 ''00734''] 100000)
               (scenario_config 1000000) = Completed resp
     \<and> map capital_start (timeline resp) = [1000000, 7900000]
     \<and> map capital_end (timeline resp) = [7900000, 7800000]"
proof -
  let ?run = "run (scenario_env [draw_on 1 ''84512'', draw_on 2 ''00734''] 100000)
               (scenario_config 1000000)"
  have ev: "(case ?run of
               Completed r \<Rightarrow> Some (map capital_start (timeline r), map capital_end (timeline r))
             | _ \<Rightarrow> None) = Some ([1000000, 7900000], [7900000, 7800000])"
    by code_simp
  then obtain resp where r: "?run = Completed resp"
    by (cases ?run) simp_all
  from C1_capital_chain [OF r] ev r show ?thesis by simp
qed

text \<open>
  Claim C4. \<open>run(config)\<close> fails with \<open>ConfigError\<close> whenever \<open>date_start > date_end\<close>,
  \<open>capital \<le> 0\<close>, \<open>digits\<close> is outside \<open>[1,5]\<close> or either risk ratio is outside
  \<open>(0,1]\<close>. The failure carries no timeline and is the same for every provider, model
  and strategy, none of which is consulted: no simulation step is taken.
\<close>

theorem C4_invalid_config_rejected:
  assumes "date_less (cfg_date_end cfg) (cfg_date_start cfg)
           \<or> cfg_capital cfg \<le> 0
           \<or> cfg_digits cfg < 1 \<or> 5 < cfg_digits cfg
           \<or> cfg_max_daily_stake_ratio cfg \<le> 0 \<or> 1 < cfg_max_daily_stake_ratio cfg
           \<or> cfg_max_single_stake_ratio cfg \<le> 0 \<or> 1 < cfg_max_single_stake_ratio cfg"
  shows "run env cfg = Failed ConfigError"
  using assms by (auto simp: run_def valid_config_def)

text \<open>
  A capital of zero with no draws at all, a start date after the end date, six digits and a
  single-stake ratio of 1.5.
\<close>

theorem C4_invalid_config_rejected_witness:
  "run (scenario_env [] 100000) (scenario_config 0) = Failed ConfigError
   \<and> run (scenario_env [draw_on 1 ''84512''] 100000)
        ((scenario_config 1000000)\<lparr>cfg_date_start := (2025, 2, 1)\<rparr>) = Failed ConfigError
   \<and> run (scenario_env [draw_on 1 ''84512''] 100000)
        ((scenario_config 1000000)\<lparr>cfg_digits := 6\<rparr>) = Failed ConfigError
   \<and> run (scenario_env [draw_on 1 ''84512''] 100000)
        ((scenario_config 1000000)\<lparr>cfg_max_single_stake_ratio := 3 / 2\<rparr>) = Failed ConfigError"
  using C4_invalid_config_rejected [of "scenario_config 0" "scenario_env [] 100000"]
    C4_invalid_config_rejected [of "(scenario_config 1000000)\<lparr>cfg_date_start := (2025, 2, 1)\<rparr>"
      "scenario_env [draw_on 1 ''84512''] 100000"]
    C4_invalid_config_rejected [of "(scenario_config 1000000)\<lparr>cfg_digits := 6\<rparr>"
      "scenario_env [draw_on 1 ''84512''] 100000"]
    C4_invalid_config_rejected [of "(scenario_config 1000000)\<lparr>cfg_max_single_stake_ratio := 3 / 2\<rparr>"
      "scenario_env [draw_on 1 ''84512''] 100000"]
  by (simp add: scenario_config_def)



end
